theory Spec2Isabelle
  imports Complex_Main "HOL-Library.Sublist"
begin

section \<open>Python strings\<close>

text \<open>
  The text handled by \<^verbatim>\<open>tools.py\<close> is a Python \<^verbatim>\<open>str\<close>. It is modelled as a
  \<^typ>\<open>string\<close> of ASCII characters: \<^verbatim>\<open>lower\<close>, \<^verbatim>\<open>title\<close>, \<^verbatim>\<open>strip\<close> and the classes
  \<^verbatim>\<open>\s\<close>, \<^verbatim>\<open>\d\<close> act as Python's do on code points below 128. Characters beyond
  ASCII are left alone by the case mappings and belong to no class.
\<close>

definition ascii_uppercase :: string where
  "ascii_uppercase = ''ABCDEFGHIJKLMNOPQRSTUVWXYZ''"

definition ascii_lowercase :: string where
  "ascii_lowercase = ''abcdefghijklmnopqrstuvwxyz''"

definition digits :: string where
  "digits = ''0123456789''"

definition whitespace :: string where
  \<comment> \<open>the ASCII characters for which \<^verbatim>\<open>str.isspace\<close> holds: TAB, LF, VT, FF, CR, FS, GS, RS, US, SPACE\<close>
  "whitespace = [CHR 0x09, CHR 0x0A, CHR 0x0B, CHR 0x0C, CHR 0x0D,
                 CHR 0x1C, CHR 0x1D, CHR 0x1E, CHR 0x1F, CHR 0x20]"

definition is_upper :: "char \<Rightarrow> bool" where
  "is_upper c = (c \<in> set ascii_uppercase)"

definition is_lower :: "char \<Rightarrow> bool" where
  "is_lower c = (c \<in> set ascii_lowercase)"

definition is_digit :: "char \<Rightarrow> bool" where
  "is_digit c = (c \<in> set digits)"

definition is_space :: "char \<Rightarrow> bool" where
  "is_space c = (c \<in> set whitespace)"

definition lower_char :: "char \<Rightarrow> char" where
  "lower_char c =
     (case map_of (zip ascii_uppercase ascii_lowercase) c of Some d \<Rightarrow> d | None \<Rightarrow> c)"

definition upper_char :: "char \<Rightarrow> char" where
  "upper_char c =
     (case map_of (zip ascii_lowercase ascii_uppercase) c of Some d \<Rightarrow> d | None \<Rightarrow> c)"

definition lower :: "string \<Rightarrow> string" where
  \<comment> \<open>\<^verbatim>\<open>str.lower()\<close>\<close>
  "lower s = map lower_char s"

fun title_from :: "bool \<Rightarrow> string \<Rightarrow> string" where
  \<comment> \<open>the flag says whether the previous character was a cased one\<close>
  "title_from prev [] = []"
| "title_from prev (c # cs) =
     (if is_upper c \<or> is_lower c
      then (if prev then lower_char c else upper_char c) # title_from True cs
      else c # title_from False cs)"

definition title :: "string \<Rightarrow> string" where
  \<comment> \<open>\<^verbatim>\<open>str.title()\<close>\<close>
  "title s = title_from False s"

definition strip :: "string \<Rightarrow> string" where
  \<comment> \<open>\<^verbatim>\<open>str.strip()\<close> with no argument\<close>
  "strip s = rev (dropWhile is_space (rev (dropWhile is_space s)))"

fun startswith :: "string \<Rightarrow> string \<Rightarrow> bool" where
  \<comment> \<open>\<^verbatim>\<open>s.startswith(p)\<close>\<close>
  "startswith s [] = True"
| "startswith [] (p # ps) = False"
| "startswith (c # cs) (p # ps) = (c = p \<and> startswith cs ps)"

fun contains :: "string \<Rightarrow> string \<Rightarrow> bool" where
  \<comment> \<open>\<^verbatim>\<open>sub in s\<close>\<close>
  "contains [] sub = (sub = [])"
| "contains (c # cs) sub = (startswith (c # cs) sub \<or> contains cs sub)"

function count_sub :: "string \<Rightarrow> string \<Rightarrow> nat" where
  \<comment> \<open>\<^verbatim>\<open>s.count(sub)\<close>: the occurrences that do not overlap, found from the left\<close>
  "count_sub s sub =
     (if sub = [] then Suc (length s)
      else if s = [] then 0
      else if startswith s sub then Suc (count_sub (drop (length sub) s) sub)
      else count_sub (tl s) sub)"
  by pat_completeness auto
termination
  by (relation "measure (\<lambda>(s, sub). length s)") auto

declare count_sub.simps [simp del]

section \<open>Python values and dictionaries\<close>

text \<open>
  The results are dictionaries of strings, lists and dictionaries. A dictionary keeps its
  keys in the order of their first insertion; assigning to a key it has replaces the
  value in place.
\<close>

datatype pyval = Str string | Lst "pyval list" | Dct "(string \<times> pyval) list"

type_synonym pydict = "(string \<times> pyval) list"

fun dict_set :: "string \<Rightarrow> 'v \<Rightarrow> (string \<times> 'v) list \<Rightarrow> (string \<times> 'v) list" where
  \<comment> \<open>\<^verbatim>\<open>d[k] = v\<close>\<close>
  "dict_set k v [] = [(k, v)]"
| "dict_set k v ((k', v') # d) = (if k' = k then (k, v) # d else (k', v') # dict_set k v d)"

definition dict_get :: "(string \<times> 'v) list \<Rightarrow> string \<Rightarrow> 'v \<Rightarrow> 'v" where
  \<comment> \<open>\<^verbatim>\<open>d.get(k, default)\<close>\<close>
  "dict_get d k dflt = (case map_of d k of Some v \<Rightarrow> v | None \<Rightarrow> dflt)"

fun py_len :: "pyval \<Rightarrow> nat" where
  \<comment> \<open>\<^verbatim>\<open>len(v)\<close>\<close>
  "py_len (Str s) = length s"
| "py_len (Lst xs) = length xs"
| "py_len (Dct d) = length d"

fun py_in :: "string \<Rightarrow> pyval \<Rightarrow> bool" where
  \<comment> \<open>\<^verbatim>\<open>s in v\<close> for a string \<^verbatim>\<open>s\<close>\<close>
  "py_in s (Str t) = contains t s"
| "py_in s (Lst xs) = (Str s \<in> set xs)"
| "py_in s (Dct d) = (s \<in> fst ` set d)"

section \<open>Regular expressions\<close>

text \<open>
  The patterns of \<^verbatim>\<open>tools.py\<close> use literals, character classes, sequence, alternation,
  the greedy \<^verbatim>\<open>*\<close>, \<^verbatim>\<open>+\<close>, \<^verbatim>\<open>?\<close> and \<^verbatim>\<open>{0,n}\<close>, and the lazy \<^verbatim>\<open>*?\<close>; no anchor and no
  look-around, so a match at a position depends only on the text from that position on.
  \<open>rests r s\<close> lists, for every way \<open>r\<close> matches a prefix of \<open>s\<close>, what is left of \<open>s\<close>, in
  the order in which Python's backtracking matcher tries them. The match Python reports
  is the first of the list.
\<close>

datatype regex =
    Eps
  | Cls "char \<Rightarrow> bool"
  | Seq regex regex
  | Alt regex regex
  | Star regex
  | LazyStar regex
  | Upto nat regex

primrec weight :: "regex \<Rightarrow> nat" where
  "weight Eps = 0"
| "weight (Cls p) = 0"
| "weight (Seq a b) = Suc (weight a + weight b)"
| "weight (Alt a b) = Suc (weight a + weight b)"
| "weight (Star a) = Suc (weight a)"
| "weight (LazyStar a) = Suc (weight a)"
| "weight (Upto n a) = Suc (n + weight a)"

function rests :: "regex \<Rightarrow> string \<Rightarrow> string list" where
  "rests Eps s = [s]"
| "rests (Cls p) s = (case s of [] \<Rightarrow> [] | c # cs \<Rightarrow> if p c then [cs] else [])"
| "rests (Seq a b) s = concat (map (rests b) (rests a s))"
| "rests (Alt a b) s = rests a s @ rests b s"
| "rests (Star a) s =
     concat (map (\<lambda>s'. if length s' < length s then rests (Star a) s' else []) (rests a s)) @ [s]"
| "rests (LazyStar a) s =
     s # concat (map (\<lambda>s'. if length s' < length s then rests (LazyStar a) s' else []) (rests a s))"
| "rests (Upto 0 a) s = [s]"
| "rests (Upto (Suc n) a) s = concat (map (rests (Upto n a)) (rests a s)) @ [s]"
  by pat_completeness auto
termination
  by (relation "measures [\<lambda>(r, s). weight r, \<lambda>(r, s). length s]") auto

definition Plus :: "regex \<Rightarrow> regex" where
  \<comment> \<open>\<^verbatim>\<open>a+\<close>\<close>
  "Plus a = Seq a (Star a)"

definition Opt :: "regex \<Rightarrow> regex" where
  \<comment> \<open>\<^verbatim>\<open>a?\<close>\<close>
  "Opt a = Alt a Eps"

definition Chr :: "char \<Rightarrow> regex" where
  "Chr x = Cls (\<lambda>c. c = x)"

primrec lit :: "string \<Rightarrow> regex" where
  \<comment> \<open>a literal, matched as written\<close>
  "lit [] = Eps"
| "lit (x # xs) = Seq (Chr x) (lit xs)"

primrec lit_ci :: "string \<Rightarrow> regex" where
  \<comment> \<open>a literal under \<^verbatim>\<open>re.IGNORECASE\<close>\<close>
  "lit_ci [] = Eps"
| "lit_ci (x # xs) = Seq (Cls (\<lambda>c. lower_char c = lower_char x)) (lit_ci xs)"

primrec alts :: "regex list \<Rightarrow> regex" where
  \<comment> \<open>\<^verbatim>\<open>a|b|...\<close>; the empty alternation never matches\<close>
  "alts [] = Cls (\<lambda>c. False)"
| "alts (a # as) = (if as = [] then a else Alt a (alts as))"

primrec seqs :: "regex list \<Rightarrow> regex" where
  "seqs [] = Eps"
| "seqs (a # as) = Seq a (seqs as)"

text \<open>
  A match is its group 0 and its capture groups. \<open>re_match\<close> matches \<open>pre (grp) post\<close> at
  the start of the text, \<open>re_match0\<close> a pattern with no group that is read.
\<close>

type_synonym match = "string \<times> string list"

definition re_match0 :: "regex \<Rightarrow> string \<Rightarrow> match option" where
  "re_match0 r s =
     (case rests r s of
        [] \<Rightarrow> None
      | s' # _ \<Rightarrow> Some (take (length s - length s') s, []))"

definition re_match :: "regex \<Rightarrow> regex \<Rightarrow> regex \<Rightarrow> string \<Rightarrow> match option" where
  "re_match pre grp post s =
     (case concat (map (\<lambda>s1. concat (map (\<lambda>s2. map (\<lambda>s3. (s1, s2, s3)) (rests post s2))
                                        (rests grp s1)))
                       (rests pre s)) of
        [] \<Rightarrow> None
      | (s1, s2, s3) # _ \<Rightarrow>
          Some (take (length s - length s3) s, [take (length s1 - length s2) s1]))"

fun search :: "(string \<Rightarrow> match option) \<Rightarrow> string \<Rightarrow> match option" where
  \<comment> \<open>\<^verbatim>\<open>re.search\<close>: the match at the leftmost position that has one\<close>
  "search m [] = m []"
| "search m (c # cs) = (case m (c # cs) of Some r \<Rightarrow> Some r | None \<Rightarrow> search m cs)"

function finditer :: "(string \<Rightarrow> match option) \<Rightarrow> string \<Rightarrow> match list" where
  \<comment> \<open>\<^verbatim>\<open>re.finditer\<close>: the matches from left to right, each search starting where the
      previous match ended. Every pattern of the program starts with a literal that is
      not empty, so no match is empty; the step of at least one character is what an
      empty match would take.\<close>
  "finditer m s =
     (case m s of
        Some g \<Rightarrow> g # (if s = [] then [] else finditer m (drop (max 1 (length (fst g))) s))
      | None \<Rightarrow> (if s = [] then [] else finditer m (tl s)))"
  by pat_completeness auto
termination
  by (relation "measure (\<lambda>(m, s). length s)") auto

declare finditer.simps [simp del]


section \<open>Comparing a count with 1.2 times another\<close>

text \<open>
  \<^verbatim>\<open>positive_count > negative_count * 1.2\<close> multiplies an \<^verbatim>\<open>int\<close> by the double nearest to
  1.2, which is \<open>5404319552844595 / 2 ^ 52\<close>: the \<^verbatim>\<open>int\<close> is converted to a double, the
  product is rounded to a double (53 significant bits, to nearest, ties to even), and
  the comparison of the other \<^verbatim>\<open>int\<close> with that double is exact. All numbers are kept
  as multiples of \<open>2 ^ -52\<close>. Counts of a text stay far below the range where a double
  overflows, so overflow is not modelled.
\<close>

function bit_length :: "nat \<Rightarrow> nat" where
  \<comment> \<open>\<^verbatim>\<open>int.bit_length()\<close>\<close>
  "bit_length n = (if n = 0 then 0 else Suc (bit_length (n div 2)))"
  by pat_completeness auto
termination
  by (relation "measure (\<lambda>n. n)") auto

declare bit_length.simps [simp del]

definition round53 :: "nat \<Rightarrow> nat" where
  \<comment> \<open>the nearest number with at most 53 significant bits, ties to the even significand\<close>
  "round53 q =
     (let sh = bit_length q - 53 in
      if sh = 0 then q
      else
        let m = q div 2 ^ sh; r = q mod 2 ^ sh; h = 2 ^ (sh - 1)
        in (if h < r \<or> (r = h \<and> odd m) then m + 1 else m) * 2 ^ sh)"

definition double_1_2 :: nat where
  \<comment> \<open>the significand of the double \<^verbatim>\<open>1.2\<close>, which is \<^verbatim>\<open>0x1.3333333333333p+0\<close>\<close>
  "double_1_2 = 5404319552844595"

definition times_1_2 :: "nat \<Rightarrow> nat" where
  \<comment> \<open>\<^verbatim>\<open>b * 1.2\<close>, in units of \<open>2 ^ -52\<close>\<close>
  "times_1_2 b = round53 (round53 b * double_1_2)"

definition gt_times_1_2 :: "nat \<Rightarrow> nat \<Rightarrow> bool" where
  \<comment> \<open>\<^verbatim>\<open>a > b * 1.2\<close>\<close>
  "gt_times_1_2 a b = (times_1_2 b < a * 2 ^ 52)"

section \<open>Investment analysis\<close>

definition company_pattern :: regex where
  \<comment> \<open>\<^verbatim>\<open>([A-Z][A-Za-z\s&]+(?:Inc|Corp|Corporation|Ltd|Limited|LLC)\.?)\<close>\<close>
  "company_pattern =
     seqs [Cls is_upper,
           Plus (Cls (\<lambda>c. is_upper c \<or> is_lower c \<or> is_space c \<or> c = CHR ''&'')),
           alts [lit ''Inc'', lit ''Corp'', lit ''Corporation'', lit ''Ltd'', lit ''Limited'',
                 lit ''LLC''],
           Opt (Chr CHR ''.'')]"

definition extract_document_info :: "string \<Rightarrow> pydict" where
  "extract_document_info text =
     (let info = [(''document_type'', Str ''Financial Document''),
                  (''company_name'', Str ''Not identified''),
                  (''reporting_period'', Str ''Not specified'')];
          text_lower = lower text;
          info =
            (if contains text_lower ''annual report'' \<or> contains text_lower ''10-k''
             then dict_set ''document_type'' (Str ''Annual Report'') info
             else if contains text_lower ''quarterly'' \<or> contains text_lower ''10-q''
             then dict_set ''document_type'' (Str ''Quarterly Report'') info
             else if contains text_lower ''earnings''
             then dict_set ''document_type'' (Str ''Earnings Report'') info
             else info)
      in case search (re_match Eps company_pattern Eps) (take 2000 text) of
           Some (g0, gs) \<Rightarrow> dict_set ''company_name'' (Str (strip (hd gs))) info
         | None \<Rightarrow> info)"

definition financial_terms :: "(string \<times> string list) list" where
  "financial_terms =
     [(''revenue'', [''revenue'', ''net sales'', ''total revenue'']),
      (''net_income'', [''net income'', ''net profit'', ''net earnings'']),
      (''total_assets'', [''total assets'']),
      (''cash'', [''cash'', ''cash and equivalents''])]"

definition money_pre :: "string \<Rightarrow> regex" where
  \<comment> \<open>\<^verbatim>\<open>{re.escape(keyword)}[:\s]*\$?\s*\<close>\<close>
  "money_pre keyword =
     seqs [lit_ci keyword, Star (Cls (\<lambda>c. c = CHR '':'' \<or> is_space c)), Opt (Chr CHR ''$''),
           Star (Cls is_space)]"

definition money_number :: regex where
  \<comment> \<open>\<^verbatim>\<open>([\d,]+(?:\.\d+)?)\<close>\<close>
  "money_number =
     Seq (Plus (Cls (\<lambda>c. is_digit c \<or> c = CHR '','')))
         (Opt (Seq (Chr CHR ''.'') (Plus (Cls is_digit))))"

definition money_scale :: regex where
  \<comment> \<open>\<^verbatim>\<open>\s*(?:million|billion|M|B)?\<close>\<close>
  "money_scale =
     Seq (Star (Cls is_space))
         (Opt (alts [lit_ci ''million'', lit_ci ''billion'', lit_ci ''M'', lit_ci ''B'']))"

definition money_match :: "string \<Rightarrow> string \<Rightarrow> match option" where
  "money_match keyword = re_match (money_pre keyword) money_number money_scale"

definition format_value :: "match \<Rightarrow> string" where
  \<comment> \<open>the body of the loop over the matches\<close>
  "format_value g =
     (let value = hd (snd g); context = fst g in
      if contains (lower context) ''million'' \<or> contains context ''M'' then ''$'' @ value @ ''M''
      else if contains (lower context) ''billion'' \<or> contains context ''B'' then ''$'' @ value @ ''B''
      else ''$'' @ value)"

definition keyword_values :: "string \<Rightarrow> string \<Rightarrow> string list" where
  \<comment> \<open>one round of the loop over the keywords\<close>
  "keyword_values text keyword = map format_value (finditer (money_match keyword) text)"

definition find_monetary_values :: "string \<Rightarrow> string list \<Rightarrow> string list" where
  "find_monetary_values text keywords = concat (map (keyword_values text) keywords)"

definition extract_financial_metrics :: "string \<Rightarrow> (string \<times> string) list" where
  "extract_financial_metrics text =
     foldl (\<lambda>metrics (metric, keywords).
              case find_monetary_values text keywords of
                [] \<Rightarrow> metrics
              | v # _ \<Rightarrow> dict_set metric v metrics)
           [] financial_terms"

definition any_char :: regex where
  \<comment> \<open>\<^verbatim>\<open>.\<close> without \<^verbatim>\<open>re.DOTALL\<close>\<close>
  "any_char = Cls (\<lambda>c. c \<noteq> CHR 0x0A)"

definition positive_patterns :: "regex list" where
  "positive_patterns =
     [Seq (alts [lit_ci ''growth'', lit_ci ''increased'', lit_ci ''improved'', lit_ci ''strong''])
          (Upto 100 any_char),
      Seq (alts [lit_ci ''expansion'', lit_ci ''acquisition'', lit_ci ''new product''])
          (Upto 100 any_char),
      Seq (alts [lit_ci ''dividend'', lit_ci ''share repurchase'']) (Upto 100 any_char)]"

definition pattern_highlights :: "string \<Rightarrow> regex \<Rightarrow> string list" where
  \<comment> \<open>one round of the loop over the patterns\<close>
  "pattern_highlights text pattern =
     filter (\<lambda>highlight. 20 < length highlight \<and> length highlight < 200)
            (map (\<lambda>g. strip (fst g)) (finditer (re_match0 pattern) text))"

definition extract_highlights :: "string \<Rightarrow> string list" where
  "extract_highlights text = take 5 (concat (map (pattern_highlights text) positive_patterns))"

definition positive_indicators :: "string list" where
  "positive_indicators = [''growth'', ''increased'', ''improved'', ''strong'', ''expansion'']"

definition negative_indicators :: "string list" where
  "negative_indicators =
     [''declined'', ''decreased'', ''loss'', ''challenging'', ''restructuring'']"

definition count_terms :: "string \<Rightarrow> string list \<Rightarrow> nat" where
  \<comment> \<open>\<^verbatim>\<open>sum(text_lower.count(term) for term in terms)\<close>\<close>
  "count_terms text_lower terms = sum_list (map (count_sub text_lower) terms)"

definition generate_recommendation :: "string \<Rightarrow> string" where
  "generate_recommendation text =
     (let text_lower = lower text;
          positive_count = count_terms text_lower positive_indicators;
          negative_count = count_terms text_lower negative_indicators
      in if gt_times_1_2 positive_count negative_count
         then ''POSITIVE - Document shows favorable indicators for investment consideration''
         else if gt_times_1_2 negative_count positive_count
         then ''CAUTIOUS - Document shows some concerning factors requiring careful analysis''
         else ''NEUTRAL - Mixed indicators suggest further analysis needed'')"

definition analyze_investment :: "string \<Rightarrow> pydict" where
  "analyze_investment financial_document_data =
     (if financial_document_data = [] \<or> startswith financial_document_data ''Error:''
      then [(''error'', Str ''No valid financial data provided for analysis'')]
      else [(''document_summary'', Dct (extract_document_info financial_document_data)),
            (''financial_metrics'',
               Dct (map (\<lambda>(k, v). (k, Str v)) (extract_financial_metrics financial_document_data))),
            (''key_highlights'', Lst (map Str (extract_highlights financial_document_data))),
            (''investment_recommendation'',
               Str (generate_recommendation financial_document_data))])"

section \<open>Risk assessment\<close>

definition risk_keywords :: "string list" where
  "risk_keywords =
     [''debt'', ''liquidity'', ''competition'', ''regulatory'', ''market volatility'',
      ''credit risk'', ''operational risk'', ''litigation'', ''compliance'']"

definition any_char_dotall :: regex where
  \<comment> \<open>\<^verbatim>\<open>.\<close> under \<^verbatim>\<open>re.DOTALL\<close>\<close>
  "any_char_dotall = Cls (\<lambda>c. True)"

definition risk_section_pattern :: regex where
  \<comment> \<open>\<^verbatim>\<open>risk factors?:?(.*?)(?:item|section|\n\n)\<close> under \<^verbatim>\<open>re.IGNORECASE | re.DOTALL\<close>\<close>
  "risk_section_pattern =
     seqs [lit_ci ''risk factor'', Opt (lit_ci ''s''), Opt (Chr CHR '':''),
           LazyStar any_char_dotall,
           alts [lit_ci ''item'', lit_ci ''section'', lit [CHR 0x0A, CHR 0x0A]]]"

definition identify_risks :: "string \<Rightarrow> string list" where
  "identify_risks text =
     (let text_lower = lower text;
          risks = map (\<lambda>keyword. title keyword @ '' concerns mentioned'')
                      (filter (\<lambda>keyword. contains text_lower keyword) risk_keywords);
          risks = (case search (re_match0 risk_section_pattern) text of
                     Some risk_section \<Rightarrow> risks @ [''Dedicated risk factors section identified'']
                   | None \<Rightarrow> risks)
      in take 10 risks)"

definition stability_positive :: "string list" where
  "stability_positive = [''strong cash'', ''profitable'', ''stable revenue'', ''low debt'']"

definition stability_negative :: "string list" where
  "stability_negative = [''cash shortage'', ''loss'', ''high debt'', ''declining revenue'']"

definition assess_financial_stability :: "string \<Rightarrow> string" where
  "assess_financial_stability text =
     (let text_lower = lower text;
          positive_score = count_terms text_lower stability_positive;
          negative_score = count_terms text_lower stability_negative
      in if negative_score < positive_score
         then ''STABLE - Positive financial stability indicators''
         else if positive_score < negative_score
         then ''CONCERNING - Several financial stability concerns''
         else ''MIXED - Balanced financial stability indicators'')"

definition market_risk_terms :: "(string \<times> string) list" where
  "market_risk_terms =
     [(''competition'', ''Competitive pressure identified''),
      (''market volatility'', ''Market volatility concerns''),
      (''economic uncertainty'', ''Economic uncertainty factors''),
      (''regulatory changes'', ''Regulatory change risks'')]"

definition assess_market_risks :: "string \<Rightarrow> string list" where
  "assess_market_risks text =
     (let text_lower = lower text
      in map snd (filter (\<lambda>(term, description). contains text_lower term) market_risk_terms))"

definition generate_risk_recommendations :: "string \<Rightarrow> string list" where
  "generate_risk_recommendations text =
     (let recommendations =
            [''Monitor financial metrics regularly'',
             ''Diversify investment portfolio'',
             ''Stay informed about industry trends'',
             ''Review risk tolerance periodically''];
          text_lower = lower text;
          recommendations =
            (if contains text_lower ''debt''
             then recommendations @ [''Pay attention to debt levels and coverage ratios'']
             else recommendations);
          recommendations =
            (if contains text_lower ''competition''
             then recommendations @ [''Monitor competitive landscape changes'']
             else recommendations)
      in take 6 recommendations)"

definition calculate_overall_risk :: "pydict \<Rightarrow> string" where
  "calculate_overall_risk assessment =
     (let risk_factors = py_len (dict_get assessment ''identified_risks'' (Lst []));
          financial_stability = dict_get assessment ''financial_stability'' (Str []);
          market_risks = py_len (dict_get assessment ''market_risks'' (Lst []));
          total_risk_score = int risk_factors + int market_risks;
          total_risk_score =
            (if py_in ''CONCERNING'' financial_stability then total_risk_score + 3
             else if py_in ''STABLE'' financial_stability then total_risk_score - 1
             else total_risk_score)
      in if total_risk_score \<le> 3 then ''LOW''
         else if total_risk_score \<le> 7 then ''MEDIUM''
         else ''HIGH'')"

definition assess_risks :: "string \<Rightarrow> pydict" where
  "assess_risks financial_document_data =
     (if financial_document_data = [] \<or> startswith financial_document_data ''Error:''
      then [(''error'', Str ''No valid financial data provided for risk assessment'')]
      else
        let risk_assessment =
              [(''overall_risk_level'', Str ''MEDIUM''),
               (''identified_risks'', Lst (map Str (identify_risks financial_document_data))),
               (''financial_stability'', Str (assess_financial_stability financial_document_data)),
               (''market_risks'', Lst (map Str (assess_market_risks financial_document_data))),
               (''recommendations'',
                  Lst (map Str (generate_risk_recommendations financial_document_data)))]
        in dict_set ''overall_risk_level'' (Str (calculate_overall_risk risk_assessment))
             risk_assessment)"


text \<open>
  The three values \<^verbatim>\<open>assess_financial_stability\<close> returns, as the classification they
  stand for.
\<close>

datatype stability = STABLE | CONCERNING | MIXED

fun stability_text :: "stability \<Rightarrow> string" where
  "stability_text STABLE = ''STABLE - Positive financial stability indicators''"
| "stability_text CONCERNING = ''CONCERNING - Several financial stability concerns''"
| "stability_text MIXED = ''MIXED - Balanced financial stability indicators''"

section \<open>The double product is exact on counts\<close>

lemma bit_length_0: "bit_length 0 = 0"
  by (subst bit_length.simps) simp

lemma bit_length_1: "bit_length (Suc 0) = 1"
  by (subst bit_length.simps) (simp add: bit_length_0)

lemma bit_length_bounds:
  "0 < n \<Longrightarrow> 2 ^ (bit_length n - 1) \<le> n \<and> n < 2 ^ bit_length n"
proof (induction n rule: bit_length.induct)
  case (1 n)
  show ?case
  proof (cases "n div 2 = 0")
    case True
    with "1.prems" have "n = 1" by presburger
    then show ?thesis by (simp add: bit_length_1)
  next
    case False
    then have pos: "0 < n div 2" by simp
    from "1.IH" [OF _ pos] "1.prems"
    have ih: "2 ^ (bit_length (n div 2) - 1) \<le> n div 2" "n div 2 < 2 ^ bit_length (n div 2)"
      by auto
    have bl: "bit_length n = Suc (bit_length (n div 2))"
      using "1.prems" by (subst bit_length.simps) simp
    have "0 < bit_length (n div 2)"
      using pos by (subst bit_length.simps) simp
    then obtain k where k: "bit_length (n div 2) = Suc k" by (cases "bit_length (n div 2)") auto
    from ih k have "2 * 2 ^ k \<le> n" "n < 2 * 2 ^ Suc k" by auto
    then show ?thesis by (simp add: bl k)
  qed
qed

lemma bit_length_le: "n < 2 ^ k \<Longrightarrow> bit_length n \<le> k"
proof (cases "n = 0")
  case True
  then show ?thesis by (simp add: bit_length_0)
next
  case False
  assume "n < 2 ^ k"
  from False bit_length_bounds [of n] have "2 ^ (bit_length n - 1) \<le> n" by simp
  also note \<open>n < 2 ^ k\<close>
  finally have "bit_length n - 1 < k" by simp
  then show ?thesis by simp
qed

lemma round53_small: "q < 2 ^ 53 \<Longrightarrow> round53 q = q"
  using bit_length_le [of q 53] by (simp add: round53_def)

lemma round53_close: "\<bar>int (round53 q) - int q\<bar> * 2 ^ 53 \<le> int q"
proof (cases "bit_length q - 53 = 0")
  case True
  then show ?thesis by (simp add: round53_def)
next
  case False
  define sh where "sh = bit_length q - 53"
  define h :: nat where "h = 2 ^ (sh - 1)"
  define m where "m = q div 2 ^ sh"
  define r where "r = q mod 2 ^ sh"
  from False have sh: "0 < sh" "bit_length q = sh + 53" by (auto simp: sh_def)
  then have "0 < q" by (cases "q = 0") (auto simp: bit_length_0)
  from bit_length_bounds [OF this] sh have lo: "2 ^ (sh + 52) \<le> q" by (simp add: add.commute)
  have two: "(2::nat) ^ sh = 2 * h" using sh(1) by (cases sh) (auto simp: h_def)
  have q: "q = m * (2 * h) + r"
    using div_mult_mod_eq [of q "2 ^ sh"] by (simp add: m_def r_def two)
  have hpos: "0 < h" by (simp add: h_def)
  then have rlt: "r < 2 * h" by (simp add: r_def two)
  have "round53 q = (if h < r \<or> (r = h \<and> odd m) then m + 1 else m) * 2 ^ sh"
    unfolding round53_def Let_def sh_def [symmetric] h_def m_def r_def using sh(1) by simp
  then have R: "round53 q = (if h < r \<or> (r = h \<and> odd m) then m + 1 else m) * (2 * h)"
    by (simp only: two)
  have qi: "int q = int m * (2 * int h) + int r"
    by (subst q) simp
  have Ri: "int (round53 q) = (if h < r \<or> (r = h \<and> odd m) then int m + 1 else int m) * (2 * int h)"
    by (simp add: R)
  have "\<bar>int (round53 q) - int q\<bar> \<le> int h"
    unfolding Ri qi using rlt by (auto simp: algebra_simps)
  moreover have "int h * 2 ^ 53 \<le> int q"
  proof -
    have "h * 2 ^ 53 = 2 ^ (sh + 52)"
      using sh(1) by (cases sh) (auto simp: h_def power_add)
    with lo have "h * 2 ^ 53 \<le> q" by simp
    then show ?thesis by (metis of_nat_le_iff of_nat_mult of_nat_numeral of_nat_power)
  qed
  ultimately show ?thesis
    by (meson mult_right_mono order_trans zero_le_numeral zero_le_power)
qed

lemma round53_tie:
  assumes k: "0 < k" "k < 2 ^ 48"
  shows "round53 (k * 27021597764222975) = k * 27021597764222976"
proof -
  define q where "q = k * 27021597764222975"
  define sh where "sh = bit_length q - 53"
  define h :: nat where "h = 2 ^ (sh - 1)"
  have qpos: "0 < q" using k by (simp add: q_def)
  note bl = bit_length_bounds [OF qpos]
  have "(2::nat) ^ 53 \<le> q" using k(1) by (simp add: q_def)
  with bl have big: "(2::nat) ^ 53 < 2 ^ bit_length q" by (meson le_less_trans)
  have "53 < bit_length q"
  proof (rule ccontr)
    assume "\<not> 53 < bit_length q"
    then have "(2::nat) ^ bit_length q \<le> 2 ^ 53" by (intro power_increasing) auto
    with big show False by simp
  qed
  then have sh: "0 < sh" "bit_length q = sh + 53" by (auto simp: sh_def)
  have two: "(2::nat) ^ sh = 2 * h" using sh(1) by (cases sh) (auto simp: h_def)
  have hpos: "0 < h" by (simp add: h_def)
  have qlt: "q < 2 ^ (sh + 53)" using bl sh by simp
  have kh: "k < h"
  proof (rule ccontr)
    assume "\<not> k < h"
    then have "h * 27021597764222975 \<le> q" by (simp add: q_def)
    moreover have "h * 2 ^ 54 \<le> h * 27021597764222975" by simp
    moreover have "h * 2 ^ 54 = 2 ^ (sh + 53)"
      using sh(1) by (cases sh) (auto simp: h_def power_add)
    ultimately show False using qlt by linarith
  qed
  have "q < 2 ^ 48 * 2 ^ 55" using k(2) by (simp add: q_def)
  then have "q < 2 ^ 103" by simp
  then have "bit_length q \<le> 103" by (rule bit_length_le)
  then have "sh \<le> 52" using sh by simp
  then obtain e where e: "52 = sh + e" using le_Suc_ex by blast
  define M' where "M' = 6 * k * 2 ^ e"
  have M: "k * 27021597764222976 = M' * (2 * h)"
  proof -
    have "k * 27021597764222976 = 6 * k * 2 ^ 52" by simp
    also have "\<dots> = 6 * k * (2 ^ e * 2 ^ sh)" by (simp only: e power_add mult.commute)
    finally show ?thesis by (simp add: M'_def two)
  qed
  have M'pos: "0 < M'" using k(1) by (simp add: M'_def)
  have "q + k = M' * (2 * h)" using M by (simp add: q_def)
  then have qrep: "q = (M' - 1) * (2 * h) + (2 * h - k)"
    using kh M'pos by (cases M') (auto simp: algebra_simps)
  have rlt: "2 * h - k < 2 * h" using k(1) hpos by simp
  have qdiv: "q div (2 * h) = M' - 1" using rlt by (subst qrep) simp
  have qmod: "q mod (2 * h) = 2 * h - k" using rlt by (subst qrep) simp
  have "round53 q = (if h < q mod 2 ^ sh \<or> (q mod 2 ^ sh = h \<and> odd (q div 2 ^ sh))
                      then q div 2 ^ sh + 1 else q div 2 ^ sh) * 2 ^ sh"
    unfolding round53_def Let_def sh_def [symmetric] h_def using sh(1) by simp
  also have "\<dots> = (M' - 1 + 1) * (2 * h)"
  proof -
    have "h < 2 * h - k" using kh by arith
    then show ?thesis unfolding two qdiv qmod by simp
  qed
  also have "\<dots> = k * 27021597764222976" using M'pos M by simp
  finally show ?thesis by (simp add: q_def)
qed

lemma gt_times_1_2_exact:
  assumes b: "b < 2 ^ 50"
  shows "gt_times_1_2 a b \<longleftrightarrow> 6 * b < 5 * a"
proof -
  define q where "q = b * 5404319552844595"
  define R where "R = round53 q"
  have "round53 b = b" using b by (intro round53_small) simp
  then have gt: "gt_times_1_2 a b \<longleftrightarrow> R < a * 4503599627370496"
    by (simp add: gt_times_1_2_def times_1_2_def double_1_2_def R_def q_def)
  have q5: "5 * int q = 27021597764222975 * int b" by (simp add: q_def)
  have b': "int b < 1125899906842624" using b by simp
  from round53_close [of q] have "\<bar>int R - int q\<bar> * 9007199254740992 \<le> int q"
    by (simp add: R_def)
  then have close: "9007199254740992 * int R \<le> 9007199254740993 * int q"
    "9007199254740991 * int q \<le> 9007199254740992 * int R"
    by (auto simp: abs_if algebra_simps split: if_splits)
  consider "6 * b < 5 * a" | "5 * a < 6 * b" | "6 * b = 5 * a" by linarith
  then show ?thesis
  proof cases
    case 1
    then have "6 * int b + 1 \<le> 5 * int a" by simp
    with q5 b' close have "int R < 4503599627370496 * int a" by linarith
    then have "R < a * 4503599627370496" by linarith
    with 1 gt show ?thesis by simp
  next
    case 2
    then have "5 * int a + 1 \<le> 6 * int b" by simp
    with q5 b' close have "4503599627370496 * int a \<le> int R" by linarith
    then have "a * 4503599627370496 \<le> R" by linarith
    with 2 gt show ?thesis by simp
  next
    case 3
    define k where "k = a - b"
    from 3 have k: "b = 5 * k" unfolding k_def by arith
    with 3 have a: "a = 6 * k" by simp
    have "R = a * 4503599627370496"
    proof (cases "k = 0")
      case True
      then show ?thesis by (simp add: R_def q_def k a round53_def bit_length_0)
    next
      case False
      then have "0 < k" by simp
      moreover have "k < 2 ^ 48" using b k by simp
      ultimately have "round53 (k * 27021597764222975) = k * 27021597764222976"
        by (rule round53_tie)
      moreover have "q = k * 27021597764222975" by (simp add: q_def k)
      ultimately show ?thesis by (simp add: R_def a)
    qed
    with 3 gt show ?thesis by simp
  qed
qed

section \<open>The error gate of the two entry points\<close>

text \<open>
  C1. For the empty input and for every input that begins with \<^verbatim>\<open>Error:\<close>, both
  \<^verbatim>\<open>analyze_investment\<close> and \<^verbatim>\<open>assess_risks\<close> return a dictionary whose only key is
  \<^verbatim>\<open>error\<close>. The result is fixed by the gate alone: it is the same value whatever follows
  the prefix, so nothing of the pattern-based analysis enters it.
\<close>

theorem error_input_short_circuits:
  "analyze_investment [] = [(''error'', Str ''No valid financial data provided for analysis'')]
   \<and> analyze_investment (''Error:'' @ rest) =
       [(''error'', Str ''No valid financial data provided for analysis'')]
   \<and> assess_risks [] = [(''error'', Str ''No valid financial data provided for risk assessment'')]
   \<and> assess_risks (''Error:'' @ rest) =
       [(''error'', Str ''No valid financial data provided for risk assessment'')]"
  by (simp add: analyze_investment_def assess_risks_def)

section \<open>The overall risk level\<close>

lemma assess_financial_stability_cases:
  "\<exists>st. assess_financial_stability text = stability_text st"
proof -
  have "assess_financial_stability text = stability_text STABLE
        \<or> assess_financial_stability text = stability_text CONCERNING
        \<or> assess_financial_stability text = stability_text MIXED"
    by (simp add: assess_financial_stability_def Let_def)
  then show ?thesis by blast
qed

lemma stability_markers:
  "contains (stability_text st) ''CONCERNING'' = (st = CONCERNING)"
  "contains (stability_text st) ''STABLE'' = (st = STABLE)"
  by (cases st; simp)+

text \<open>
  C5. \<^verbatim>\<open>calculate_overall_risk\<close> depends only on the number of identified risks, the
  number of market risks and the stability classification: the score is the sum of the
  two numbers, plus 3 for CONCERNING, minus 1 for STABLE, unchanged for MIXED; the level is
  LOW up to 3, MEDIUM from 4 to 7, HIGH from 8. A score of 3 gives LOW, 4 and 7 give
  MEDIUM, 8 gives HIGH, and the score may be negative.
\<close>

theorem calculate_overall_risk_score:
  assumes "map_of assessment ''identified_risks'' = Some (Lst identified)"
    and "map_of assessment ''market_risks'' = Some (Lst market)"
    and "map_of assessment ''financial_stability'' = Some (Str (stability_text st))"
  shows "let score = int (length identified) + int (length market)
                     + (case st of CONCERNING \<Rightarrow> 3 | STABLE \<Rightarrow> - 1 | MIXED \<Rightarrow> 0)
         in calculate_overall_risk assessment =
              (if score \<le> 3 then ''LOW'' else if score \<le> 7 then ''MEDIUM'' else ''HIGH'')
            \<and> (score = 3 \<longrightarrow> calculate_overall_risk assessment = ''LOW'')
            \<and> (score = 4 \<longrightarrow> calculate_overall_risk assessment = ''MEDIUM'')
            \<and> (score = 7 \<longrightarrow> calculate_overall_risk assessment = ''MEDIUM'')
            \<and> (score = 8 \<longrightarrow> calculate_overall_risk assessment = ''HIGH'')"
proof -
  define score where "score = int (length identified) + int (length market)
                     + (case st of CONCERNING \<Rightarrow> 3 | STABLE \<Rightarrow> - 1 | MIXED \<Rightarrow> 0)"
  have "calculate_overall_risk assessment =
          (if score \<le> 3 then ''LOW'' else if score \<le> 7 then ''MEDIUM'' else ''HIGH'')"
    using assms unfolding score_def
    by (cases st) (simp_all add: calculate_overall_risk_def dict_get_def Let_def)
  then show ?thesis
    unfolding Let_def score_def [symmetric] by simp
qed

theorem calculate_overall_risk_score_witness:
  "calculate_overall_risk
     [(''overall_risk_level'', Str ''MEDIUM''),
      (''identified_risks'', Lst []),
      (''financial_stability'', Str (stability_text STABLE)),
      (''market_risks'', Lst []),
      (''recommendations'', Lst [])] = ''LOW''
   \<and> calculate_overall_risk
     [(''overall_risk_level'', Str ''MEDIUM''),
      (''identified_risks'', Lst [Str ''a'', Str ''b'', Str ''c'']),
      (''financial_stability'', Str (stability_text CONCERNING)),
      (''market_risks'', Lst [Str ''d'', Str ''e'']),
      (''recommendations'', Lst [])] = ''HIGH''"
  using calculate_overall_risk_score
      [of "[(''overall_risk_level'', Str ''MEDIUM''),
            (''identified_risks'', Lst []),
            (''financial_stability'', Str (stability_text STABLE)),
            (''market_risks'', Lst []),
            (''recommendations'', Lst [])]" "[]" "[]" STABLE]
    calculate_overall_risk_score
      [of "[(''overall_risk_level'', Str ''MEDIUM''),
            (''identified_risks'', Lst [Str ''a'', Str ''b'', Str ''c'']),
            (''financial_stability'', Str (stability_text CONCERNING)),
            (''market_risks'', Lst [Str ''d'', Str ''e'']),
            (''recommendations'', Lst [])]" "[Str ''a'', Str ''b'', Str ''c'']"
          "[Str ''d'', Str ''e'']" CONCERNING]
  by simp

section \<open>The caps on the lists\<close>

text \<open>
  C8. For every text the list of highlights has at most 5 entries, the list of identified
  risks at most 10, and the list of risk recommendations at most 6.
\<close>

theorem list_caps:
  "length (extract_highlights text) \<le> 5
   \<and> length (identify_risks text) \<le> 10
   \<and> length (generate_risk_recommendations text) \<le> 6"
  by (simp add: extract_highlights_def identify_risks_def generate_risk_recommendations_def
      Let_def)

section \<open>The document classifier\<close>

lemma dict_set_present:
  "map_of (dict_set k v d) k' = (if k' = k then Some v else map_of d k')"
  by (induction d) auto

lemma lower_simps: "lower [] = []" "lower (c # cs) = lower_char c # lower cs"
  by (simp_all add: lower_def)

lemma company_match_empty: "re_match Eps company_pattern Eps [] = None"
  by (simp add: re_match_def company_pattern_def)

lemma extract_document_info_empty:
  "extract_document_info [] =
     [(''document_type'', Str ''Financial Document''),
      (''company_name'', Str ''Not identified''),
      (''reporting_period'', Str ''Not specified'')]"
  by (simp add: extract_document_info_def Let_def lower_def company_match_empty)

text \<open>
  C9, as the code has it. The document type is found by case-insensitive substring
  search in a fixed order: \<^verbatim>\<open>annual report\<close> or \<^verbatim>\<open>10-k\<close> gives \<^verbatim>\<open>Annual Report\<close>; else
  \<^verbatim>\<open>quarterly\<close> or \<^verbatim>\<open>10-q\<close> gives \<^verbatim>\<open>Quarterly Report\<close>; else \<^verbatim>\<open>earnings\<close> gives
  \<^verbatim>\<open>Earnings Report\<close>; else \<^verbatim>\<open>Financial Document\<close>. The first rule that matches wins,
  whatever later markers occur, and the company name found does not touch the type. For
  the empty text the type is \<^verbatim>\<open>Financial Document\<close> and the company name is the
  placeholder \<^verbatim>\<open>Not identified\<close>, with a capital N.
\<close>

theorem document_type_priority:
  "map_of (extract_document_info text) ''document_type'' =
     Some (Str (if contains (lower text) ''annual report'' \<or> contains (lower text) ''10-k''
                then ''Annual Report''
                else if contains (lower text) ''quarterly'' \<or> contains (lower text) ''10-q''
                then ''Quarterly Report''
                else if contains (lower text) ''earnings'' then ''Earnings Report''
                else ''Financial Document''))
   \<and> map_of (extract_document_info []) ''document_type'' = Some (Str ''Financial Document'')
   \<and> map_of (extract_document_info []) ''company_name'' = Some (Str ''Not identified'')"
proof -
  have "map_of (extract_document_info text) ''document_type'' =
     Some (Str (if contains (lower text) ''annual report'' \<or> contains (lower text) ''10-k''
                then ''Annual Report''
                else if contains (lower text) ''quarterly'' \<or> contains (lower text) ''10-q''
                then ''Quarterly Report''
                else if contains (lower text) ''earnings'' then ''Earnings Report''
                else ''Financial Document''))"
    by (simp add: extract_document_info_def Let_def dict_set_present split: option.split)
  then show ?thesis
    by (simp add: extract_document_info_empty)
qed

text \<open>
  A text that carries the markers of all three rules is an annual report.
\<close>

theorem document_type_priority_witness:
  "map_of (extract_document_info ''Quarterly earnings and a 10-K'') ''document_type'' =
     Some (Str ''Annual Report'')"
  using document_type_priority [of "''Quarterly earnings and a 10-K''"]
  by (simp add: lower_simps lower_char_def ascii_uppercase_def ascii_lowercase_def)

text \<open>
  C9, as the claim states it, asks for the company name \<^verbatim>\<open>not identified\<close> on the empty
  text. The placeholder of the code differs from it in its first letter.
\<close>

theorem company_placeholder_counterexample:
  "map_of (extract_document_info []) ''company_name'' \<noteq> Some (Str ''not identified'')"
  by (simp add: extract_document_info_empty)

section \<open>Market risks\<close>

text \<open>
  C10. For every text, \<^verbatim>\<open>assess_market_risks\<close> returns a list without duplicates of at
  most 4 entries, each one of the four descriptions of the table; a description is in the
  list exactly when its term occurs in the lower-cased text; and the list follows the
  order of the table.
\<close>

theorem market_risks_table:
  "distinct (assess_market_risks text)
   \<and> length (assess_market_risks text) \<le> 4
   \<and> set (assess_market_risks text) \<subseteq>
       {''Competitive pressure identified'', ''Market volatility concerns'',
        ''Economic uncertainty factors'', ''Regulatory change risks''}
   \<and> (''Competitive pressure identified'' \<in> set (assess_market_risks text)
        \<longleftrightarrow> contains (lower text) ''competition'')
   \<and> (''Market volatility concerns'' \<in> set (assess_market_risks text)
        \<longleftrightarrow> contains (lower text) ''market volatility'')
   \<and> (''Economic uncertainty factors'' \<in> set (assess_market_risks text)
        \<longleftrightarrow> contains (lower text) ''economic uncertainty'')
   \<and> (''Regulatory change risks'' \<in> set (assess_market_risks text)
        \<longleftrightarrow> contains (lower text) ''regulatory changes'')
   \<and> subseq (assess_market_risks text)
        [''Competitive pressure identified'', ''Market volatility concerns'',
         ''Economic uncertainty factors'', ''Regulatory change risks'']"
proof -
  have eq: "assess_market_risks text =
      (if contains (lower text) ''competition'' then [''Competitive pressure identified''] else [])
      @ (if contains (lower text) ''market volatility'' then [''Market volatility concerns''] else [])
      @ (if contains (lower text) ''economic uncertainty'' then [''Economic uncertainty factors''] else [])
      @ (if contains (lower text) ''regulatory changes'' then [''Regulatory change risks''] else [])"
    by (simp add: assess_market_risks_def market_risk_terms_def Let_def)
  show ?thesis
    unfolding eq by simp
qed

section \<open>Facts about the matcher\<close>

lemma rests_Seq_Nil: "rests a s = [] \<Longrightarrow> rests (Seq a b) s = []"
  by simp

lemma rests_lit_ci:
  "rests (lit_ci w) s = (if startswith (lower s) (lower w) then [drop (length w) s] else [])"
proof (induction w arbitrary: s)
  case Nil
  then show ?case by (simp add: lower_def)
next
  case (Cons x xs)
  then show ?case by (cases s) (auto simp: lower_simps)
qed

lemma search_contains:
  assumes "\<And>t. m t \<noteq> None \<Longrightarrow> startswith (lower t) w"
  shows "search m s \<noteq> None \<Longrightarrow> contains (lower s) w"
proof (induction s)
  case Nil
  with assms [of "[]"] show ?case by (cases w) (auto simp: lower_simps)
next
  case (Cons c cs)
  show ?case
  proof (cases "m (c # cs)")
    case None
    with Cons show ?thesis by (simp add: lower_simps)
  next
    case (Some g)
    with assms [of "c # cs"] show ?thesis by (simp add: lower_simps)
  qed
qed

lemma risk_section_needs_heading:
  assumes "search (re_match0 risk_section_pattern) text \<noteq> None"
  shows "contains (lower text) ''risk factor''"
proof (rule search_contains [OF _ assms])
  fix t
  assume "re_match0 risk_section_pattern t \<noteq> None"
  then have "rests risk_section_pattern t \<noteq> []"
    by (auto simp: re_match0_def split: list.splits)
  then have "rests (lit_ci ''risk factor'') t \<noteq> []"
    unfolding risk_section_pattern_def seqs.simps using rests_Seq_Nil by blast
  then have "startswith (lower t) (lower ''risk factor'')"
    unfolding rests_lit_ci by (simp split: if_splits)
  then show "startswith (lower t) ''risk factor''"
    by (simp add: lower_simps lower_char_def ascii_uppercase_def ascii_lowercase_def)
qed

section \<open>Identified risks\<close>

lemma risk_labels:
  "map (\<lambda>keyword. (keyword, title keyword @ '' concerns mentioned'')) risk_keywords =
     [(''debt'', ''Debt concerns mentioned''),
      (''liquidity'', ''Liquidity concerns mentioned''),
      (''competition'', ''Competition concerns mentioned''),
      (''regulatory'', ''Regulatory concerns mentioned''),
      (''market volatility'', ''Market Volatility concerns mentioned''),
      (''credit risk'', ''Credit Risk concerns mentioned''),
      (''operational risk'', ''Operational Risk concerns mentioned''),
      (''litigation'', ''Litigation concerns mentioned''),
      (''compliance'', ''Compliance concerns mentioned'')]"
  by (simp add: risk_keywords_def title_def is_upper_def is_lower_def upper_char_def
      lower_char_def ascii_uppercase_def ascii_lowercase_def)

lemma map_filter_table:
  "map f (filter P ks) = map snd (filter (\<lambda>(k, l). P k) (map (\<lambda>k. (k, f k)) ks))"
  by (induction ks) auto

text \<open>
  C7. \<^verbatim>\<open>identify_risks\<close> gives, for each of the nine risk keywords that occurs in the
  lower-cased text, one string \<^verbatim>\<open><Keyword title-cased> concerns mentioned\<close>, in the order
  of the keyword list whatever the order in the text, followed by the marker \<^verbatim>\<open>Dedicated
  risk factors section identified\<close> when the risk-factors pattern matches; the cap of ten
  never cuts. A text with \<^verbatim>\<open>debt\<close> and \<^verbatim>\<open>competition\<close>, none of the other keywords and no
  match of the pattern gives exactly the two strings for debt and competition.
\<close>

theorem identify_risks_labels:
  "identify_risks text =
     map snd (filter (\<lambda>(keyword, label). contains (lower text) keyword)
       [(''debt'', ''Debt concerns mentioned''),
        (''liquidity'', ''Liquidity concerns mentioned''),
        (''competition'', ''Competition concerns mentioned''),
        (''regulatory'', ''Regulatory concerns mentioned''),
        (''market volatility'', ''Market Volatility concerns mentioned''),
        (''credit risk'', ''Credit Risk concerns mentioned''),
        (''operational risk'', ''Operational Risk concerns mentioned''),
        (''litigation'', ''Litigation concerns mentioned''),
        (''compliance'', ''Compliance concerns mentioned'')])
     @ (if search (re_match0 risk_section_pattern) text \<noteq> None
        then [''Dedicated risk factors section identified''] else [])
   \<and> (contains (lower text) ''debt'' \<and> contains (lower text) ''competition''
        \<and> \<not> contains (lower text) ''liquidity'' \<and> \<not> contains (lower text) ''regulatory''
        \<and> \<not> contains (lower text) ''market volatility''
        \<and> \<not> contains (lower text) ''credit risk''
        \<and> \<not> contains (lower text) ''operational risk''
        \<and> \<not> contains (lower text) ''litigation'' \<and> \<not> contains (lower text) ''compliance''
        \<and> search (re_match0 risk_section_pattern) text = None
      \<longrightarrow> identify_risks text = [''Debt concerns mentioned'', ''Competition concerns mentioned''])"
proof -
  define found where
    "found = map (\<lambda>keyword. title keyword @ '' concerns mentioned'')
               (filter (\<lambda>keyword. contains (lower text) keyword) risk_keywords)"
  define marker where
    "marker = (if search (re_match0 risk_section_pattern) text \<noteq> None
               then [''Dedicated risk factors section identified''] else [])"
  have "length found \<le> length risk_keywords"
    unfolding found_def by simp
  then have "length found \<le> 9" by (simp add: risk_keywords_def)
  moreover have "length marker \<le> 1" by (simp add: marker_def)
  ultimately have len: "length (found @ marker) \<le> 10" by simp
  have "identify_risks text = take 10 (found @ marker)"
    by (simp add: identify_risks_def Let_def found_def marker_def split: option.split)
  with len have "identify_risks text = found @ marker" by simp
  moreover have "found = map snd (filter (\<lambda>(keyword, label). contains (lower text) keyword)
       [(''debt'', ''Debt concerns mentioned''),
        (''liquidity'', ''Liquidity concerns mentioned''),
        (''competition'', ''Competition concerns mentioned''),
        (''regulatory'', ''Regulatory concerns mentioned''),
        (''market volatility'', ''Market Volatility concerns mentioned''),
        (''credit risk'', ''Credit Risk concerns mentioned''),
        (''operational risk'', ''Operational Risk concerns mentioned''),
        (''litigation'', ''Litigation concerns mentioned''),
        (''compliance'', ''Compliance concerns mentioned'')])"
    unfolding found_def risk_labels [symmetric] by (rule map_filter_table)
  ultimately have main: "identify_risks text =
     map snd (filter (\<lambda>(keyword, label). contains (lower text) keyword)
       [(''debt'', ''Debt concerns mentioned''),
        (''liquidity'', ''Liquidity concerns mentioned''),
        (''competition'', ''Competition concerns mentioned''),
        (''regulatory'', ''Regulatory concerns mentioned''),
        (''market volatility'', ''Market Volatility concerns mentioned''),
        (''credit risk'', ''Credit Risk concerns mentioned''),
        (''operational risk'', ''Operational Risk concerns mentioned''),
        (''litigation'', ''Litigation concerns mentioned''),
        (''compliance'', ''Compliance concerns mentioned'')])
     @ (if search (re_match0 risk_section_pattern) text \<noteq> None
        then [''Dedicated risk factors section identified''] else [])"
    by (simp add: marker_def)
  show ?thesis
  proof (intro conjI impI)
    show "identify_risks text =
     map snd (filter (\<lambda>(keyword, label). contains (lower text) keyword)
       [(''debt'', ''Debt concerns mentioned''),
        (''liquidity'', ''Liquidity concerns mentioned''),
        (''competition'', ''Competition concerns mentioned''),
        (''regulatory'', ''Regulatory concerns mentioned''),
        (''market volatility'', ''Market Volatility concerns mentioned''),
        (''credit risk'', ''Credit Risk concerns mentioned''),
        (''operational risk'', ''Operational Risk concerns mentioned''),
        (''litigation'', ''Litigation concerns mentioned''),
        (''compliance'', ''Compliance concerns mentioned'')])
     @ (if search (re_match0 risk_section_pattern) text \<noteq> None
        then [''Dedicated risk factors section identified''] else [])"
      by (rule main)
  next
    assume "contains (lower text) ''debt'' \<and> contains (lower text) ''competition''
        \<and> \<not> contains (lower text) ''liquidity'' \<and> \<not> contains (lower text) ''regulatory''
        \<and> \<not> contains (lower text) ''market volatility''
        \<and> \<not> contains (lower text) ''credit risk''
        \<and> \<not> contains (lower text) ''operational risk''
        \<and> \<not> contains (lower text) ''litigation'' \<and> \<not> contains (lower text) ''compliance''
        \<and> search (re_match0 risk_section_pattern) text = None"
    then show "identify_risks text = [''Debt concerns mentioned'', ''Competition concerns mentioned'']"
      unfolding main by simp
  qed
qed

text \<open>
  In the text below competition comes before debt, and the result lists debt first.
\<close>

theorem identify_risks_labels_witness:
  "identify_risks ''competition, DEBT'' =
     [''Debt concerns mentioned'', ''Competition concerns mentioned'']"
  using identify_risks_labels [of "''competition, DEBT''"]
  by (simp add: lower_simps lower_char_def ascii_uppercase_def ascii_lowercase_def
      re_match0_def risk_section_pattern_def)

section \<open>The recommendation scorer\<close>

lemma count_sub_le: "sub \<noteq> [] \<Longrightarrow> count_sub s sub \<le> length s"
proof (induction s sub rule: count_sub.induct)
  case (1 s sub)
  show ?case
  proof (cases "s = []")
    case True
    with "1.prems" show ?thesis by (subst count_sub.simps) simp
  next
    case ne: False
    show ?thesis
    proof (cases "startswith s sub")
      case True
      with "1.IH"(1) "1.prems" ne have "count_sub (drop (length sub) s) sub \<le> length s - length sub"
        by simp
      moreover have "0 < length sub" using "1.prems" by simp
      moreover have "0 < length s" using ne by simp
      ultimately have "Suc (count_sub (drop (length sub) s) sub) \<le> length s" by linarith
      with True ne "1.prems" show ?thesis by (subst count_sub.simps) simp
    next
      case False
      with "1.IH"(2) "1.prems" ne have "count_sub (tl s) sub \<le> length s - 1" by simp
      with False ne "1.prems" show ?thesis by (subst count_sub.simps) simp
    qed
  qed
qed

lemma count_terms_le:
  "\<forall>t \<in> set terms. t \<noteq> [] \<Longrightarrow> count_terms s terms \<le> length terms * length s"
  unfolding count_terms_def
proof (induction terms)
  case Nil
  then show ?case by simp
next
  case (Cons t ts)
  then show ?case using count_sub_le [of t s] by simp
qed

lemma ratio_exact: "1.2 * real n < real p \<longleftrightarrow> 6 * n < 5 * p"
proof -
  have "1.2 * real n < real p \<longleftrightarrow> real (6 * n) < real (5 * p)"
    by (simp add: mult.commute)
  also have "\<dots> \<longleftrightarrow> 6 * n < 5 * p" by (rule of_nat_less_iff)
  finally show ?thesis .
qed

text \<open>
  C6. The scorer counts, in the lower-cased text, the occurrences of the five positive
  terms and of the five negative terms as substrings (\<^verbatim>\<open>str.count\<close>, so inside longer
  words too), and returns POSITIVE when the positive count exceeds 1.2 times the negative
  count, CAUTIOUS when the negative count exceeds 1.2 times the positive count, NEUTRAL
  otherwise. Equal counts give NEUTRAL; 6 against 1 gives POSITIVE. The products are
  doubles in the code; for a text of fewer than \<open>2 ^ 47\<close> characters the rounding never
  changes the comparison.
\<close>

theorem recommendation_thresholds:
  assumes "length text < 2 ^ 47"
  shows "let positive_count = count_terms (lower text)
               [''growth'', ''increased'', ''improved'', ''strong'', ''expansion''];
             negative_count = count_terms (lower text)
               [''declined'', ''decreased'', ''loss'', ''challenging'', ''restructuring'']
         in generate_recommendation text =
              (if 1.2 * real negative_count < real positive_count
               then ''POSITIVE - Document shows favorable indicators for investment consideration''
               else if 1.2 * real positive_count < real negative_count
               then ''CAUTIOUS - Document shows some concerning factors requiring careful analysis''
               else ''NEUTRAL - Mixed indicators suggest further analysis needed'')
            \<and> (positive_count = negative_count \<longrightarrow>
                 generate_recommendation text =
                   ''NEUTRAL - Mixed indicators suggest further analysis needed'')
            \<and> (positive_count = 6 \<and> negative_count = 1 \<longrightarrow>
                 generate_recommendation text =
                   ''POSITIVE - Document shows favorable indicators for investment consideration'')"
proof -
  define p where "p = count_terms (lower text) positive_indicators"
  define n where "n = count_terms (lower text) negative_indicators"
  have len: "length (lower text) < 2 ^ 47" using assms by (simp add: lower_def)
  have "p \<le> 5 * length (lower text)"
    unfolding p_def using count_terms_le [of positive_indicators "lower text"]
    by (simp add: positive_indicators_def)
  with len have p: "p < 2 ^ 50" by simp
  have "n \<le> 5 * length (lower text)"
    unfolding n_def using count_terms_le [of negative_indicators "lower text"]
    by (simp add: negative_indicators_def)
  with len have n: "n < 2 ^ 50" by simp
  have main: "generate_recommendation text =
              (if 1.2 * real n < real p
               then ''POSITIVE - Document shows favorable indicators for investment consideration''
               else if 1.2 * real p < real n
               then ''CAUTIOUS - Document shows some concerning factors requiring careful analysis''
               else ''NEUTRAL - Mixed indicators suggest further analysis needed'')"
    unfolding ratio_exact
    by (simp only: generate_recommendation_def Let_def p_def [symmetric] n_def [symmetric]
        gt_times_1_2_exact [OF n] gt_times_1_2_exact [OF p])
  have "p = n \<longrightarrow> generate_recommendation text =
                   ''NEUTRAL - Mixed indicators suggest further analysis needed''"
    unfolding main ratio_exact by simp
  moreover have "p = 6 \<and> n = 1 \<longrightarrow> generate_recommendation text =
                   ''POSITIVE - Document shows favorable indicators for investment consideration''"
    unfolding main ratio_exact by simp
  ultimately show ?thesis
    using main unfolding Let_def p_def n_def positive_indicators_def negative_indicators_def
    by blast
qed

text \<open>
  A text with six positive terms (three in other case, two inside longer words) and one
  negative term.
\<close>

lemma count_sub_Nil: "count_sub [] (x # xs) = 0"
  by (subst count_sub.simps) simp

lemma count_sub_Cons:
  "count_sub (c # cs) (x # xs) =
     (if startswith (c # cs) (x # xs) then Suc (count_sub (drop (length xs) cs) (x # xs))
      else count_sub cs (x # xs))"
  by (subst count_sub.simps) simp

theorem recommendation_thresholds_witness:
  "generate_recommendation ''GROWTH growth Growth regrowth strongest expansion declined'' =
     ''POSITIVE - Document shows favorable indicators for investment consideration''"
  using recommendation_thresholds [of "''GROWTH growth Growth regrowth strongest expansion declined''"]
  by (simp add: count_terms_def count_sub_Nil count_sub_Cons lower_simps lower_char_def ascii_uppercase_def ascii_lowercase_def)

section \<open>Monetary metrics\<close>

lemmas money_eval =
  money_match_def re_match_def money_pre_def money_number_def money_scale_def
  Plus_def Opt_def Chr_def is_space_def whitespace_def is_digit_def digits_def
  lower_char_def ascii_uppercase_def ascii_lowercase_def

lemma finditer_search:
  "finditer m s = (case search m s of None \<Rightarrow> [] | Some g \<Rightarrow> g # tl (finditer m s))"
proof (induction m s rule: finditer.induct)
  case (1 m s)
  show ?case
  proof (cases "m s")
    case None
    show ?thesis
    proof (cases s)
      case Nil
      with None show ?thesis by (subst finditer.simps) simp
    next
      case (Cons c cs)
      then have ne: "s \<noteq> []" by simp
      note ih = "1.IH"(1) [OF None ne]
      have A: "finditer m s = finditer m (tl s)"
        using None ne by (subst finditer.simps) simp
      have B: "search m s = search m (tl s)" using None Cons by simp
      show ?thesis unfolding A B by (rule ih)
    qed
  next
    case (Some g)
    then have "search m s = Some g" by (cases s) simp_all
    moreover from Some have "\<exists>gs. finditer m s = g # gs"
      by (subst finditer.simps) simp
    ultimately show ?thesis by auto
  qed
qed

lemma keyword_values_first:
  "(case keyword_values text k of [] \<Rightarrow> None | v # _ \<Rightarrow> Some v) =
     map_option format_value (search (money_match k) text)"
  unfolding keyword_values_def
  by (subst finditer_search) (simp split: option.split)

lemma keyword_values_Nil:
  "keyword_values text k = [] \<longleftrightarrow> search (money_match k) text = None"
  using keyword_values_first [of "text" k]
  by (cases "search (money_match k) text"; cases "keyword_values text k"; simp)

lemma first_of_concat:
  "(case concat (map f ks) of [] \<Rightarrow> None | v # _ \<Rightarrow> Some v) =
     (case filter (\<lambda>k. f k \<noteq> []) ks of
        [] \<Rightarrow> None
      | k # _ \<Rightarrow> (case f k of [] \<Rightarrow> None | v # _ \<Rightarrow> Some v))"
  by (induction ks) (auto split: list.splits)

lemma find_monetary_values_first:
  "(case find_monetary_values text keywords of [] \<Rightarrow> None | v # _ \<Rightarrow> Some v) =
     (case filter (\<lambda>k. search (money_match k) text \<noteq> None) keywords of
        [] \<Rightarrow> None
      | k # _ \<Rightarrow> map_option format_value (search (money_match k) text))"
  unfolding find_monetary_values_def first_of_concat keyword_values_first keyword_values_Nil ..

lemma metrics_fold_other:
  "metric \<notin> fst ` set table \<Longrightarrow>
   map_of (foldl (\<lambda>metrics (metric, keywords).
                    case g keywords of [] \<Rightarrow> metrics | v # _ \<Rightarrow> dict_set metric v metrics)
                 d table) metric = map_of d metric"
proof (induction table arbitrary: d)
  case Nil
  then show ?case by simp
next
  case (Cons e table)
  obtain m ks where e: "e = (m, ks)" by (cases e)
  with Cons.prems have "m \<noteq> metric" "metric \<notin> fst ` set table" by auto
  with Cons.IH e show ?case
    by (cases "g ks") (simp_all add: dict_set_present)
qed

lemma metrics_fold:
  "distinct (map fst table) \<Longrightarrow> (metric, keywords) \<in> set table \<Longrightarrow>
   map_of (foldl (\<lambda>metrics (metric, keywords).
                    case g keywords of [] \<Rightarrow> metrics | v # _ \<Rightarrow> dict_set metric v metrics)
                 d table) metric =
     (case g keywords of [] \<Rightarrow> map_of d metric | v # _ \<Rightarrow> Some v)"
proof (induction table arbitrary: d)
  case Nil
  then show ?case by simp
next
  case (Cons e table)
  obtain m ks where e: "e = (m, ks)" by (cases e)
  show ?case
  proof (cases "(metric, keywords) = e")
    case True
    with Cons.prems e have "metric \<notin> fst ` set table" by auto
    note other = metrics_fold_other [OF this, of g]
    from True e have "m = metric" "ks = keywords" by simp_all
    then show ?thesis
      unfolding e by (cases "g keywords") (simp_all add: other dict_set_present)
  next
    case False
    with Cons.prems have in_rest: "(metric, keywords) \<in> set table" and d: "distinct (map fst table)"
      by auto
    from in_rest Cons.prems e have "m \<noteq> metric" by force
    with Cons.IH [OF d in_rest] e show ?thesis
      by (cases "g ks"; cases "g keywords") (simp_all add: dict_set_present)
  qed
qed

lemma metrics_lookup:
  assumes "(metric, keywords) \<in> set financial_terms"
  shows "map_of (extract_financial_metrics text) metric =
           (case find_monetary_values text keywords of [] \<Rightarrow> None | v # _ \<Rightarrow> Some v)"
proof -
  have "distinct (map fst financial_terms)" by (simp add: financial_terms_def)
  from metrics_fold [OF this assms, of "find_monetary_values text" "[]"]
  show ?thesis
    by (cases "find_monetary_values text keywords") (simp_all add: extract_financial_metrics_def)
qed

text \<open>
  C4, as the code has it. For every metric category of the table, the value kept is the
  leftmost match (the one \<^verbatim>\<open>re.search\<close> finds) of the first keyword, in the order of the
  category's keyword list, that matches anywhere in the text; the category has no value
  when no keyword matches. The keyword list is walked before the text is: a later keyword
  that matches earlier in the text does not win.
\<close>

theorem metric_first_keyword_first_match:
  assumes "(metric, keywords) \<in> set financial_terms"
  shows "map_of (extract_financial_metrics text) metric =
           (case filter (\<lambda>keyword. search (money_match keyword) text \<noteq> None) keywords of
              [] \<Rightarrow> None
            | keyword # _ \<Rightarrow> map_option format_value (search (money_match keyword) text))"
  unfolding metrics_lookup [OF assms] find_monetary_values_first ..

text \<open>
  In the text below \<^verbatim>\<open>net sales 5\<close> comes first, and the value kept for revenue is that
  of \<^verbatim>\<open>revenue 7\<close>, the match of the first keyword of the list.
\<close>

theorem metric_first_keyword_first_match_witness:
  "(''revenue'', [''revenue'', ''net sales'', ''total revenue'']) \<in> set financial_terms
   \<and> map_of (extract_financial_metrics ''net sales 5 revenue 7'') ''revenue'' = Some ''$7''"
  using metric_first_keyword_first_match
    [of "''revenue''" "[''revenue'', ''net sales'', ''total revenue'']" "''net sales 5 revenue 7''"]
  by (simp add: financial_terms_def money_eval format_value_def lower_def)

text \<open>
  C4, as the claim states it, asks for the match at the earliest position among the
  matches of all keyword variants. In the text below the variant \<^verbatim>\<open>net sales\<close> matches at
  position 0 with the value \<^verbatim>\<open>$5\<close>; the value kept for revenue is \<^verbatim>\<open>$7\<close>.
\<close>

theorem earliest_position_counterexample:
  "money_match ''net sales'' ''net sales 5 revenue 7'' = Some (''net sales 5 '', [''5''])
   \<and> format_value (''net sales 5 '', [''5'']) = ''$5''
   \<and> map_of (extract_financial_metrics ''net sales 5 revenue 7'') ''revenue'' = Some ''$7''"
proof -
  have "(''revenue'', [''revenue'', ''net sales'', ''total revenue'']) \<in> set financial_terms"
    by (simp add: financial_terms_def)
  from metrics_lookup [OF this, of "''net sales 5 revenue 7''"]
  have "map_of (extract_financial_metrics ''net sales 5 revenue 7'') ''revenue'' = Some ''$7''"
    unfolding find_monetary_values_first
    by (simp add: money_eval format_value_def lower_def)
  then show ?thesis
    by (simp add: money_eval format_value_def lower_def)
qed

section \<open>The scale letter of a monetary value\<close>

text \<open>
  C3. The loop decides the letter from the whole matched text, keyword included, and
  looks for the capital letters \<^verbatim>\<open>M\<close> and \<^verbatim>\<open>B\<close> only. The match of \<^verbatim>\<open>net income\<close> on
  \<^verbatim>\<open>NET INCOME: 5 billion\<close> ends with the scale \<^verbatim>\<open>billion\<close> and is formatted \<^verbatim>\<open>$5M\<close>, for
  the \<^verbatim>\<open>M\<close> of the keyword; the match on \<^verbatim>\<open>revenue 5 m\<close> takes the scale \<^verbatim>\<open>m\<close> and is
  formatted \<^verbatim>\<open>$5\<close>.
\<close>

theorem scale_read_from_whole_match:
  "money_match ''net income'' ''NET INCOME: 5 billion'' = Some (''NET INCOME: 5 billion'', [''5''])
   \<and> find_monetary_values ''NET INCOME: 5 billion'' [''net income'', ''net profit'', ''net earnings'']
       = [''$5M'']
   \<and> find_monetary_values ''revenue 5 m'' [''revenue'', ''net sales'', ''total revenue'']
       = [''$5'']"
  by (simp add: find_monetary_values_def keyword_values_def finditer.simps money_eval format_value_def lower_def)

section \<open>Texts of whitespace only\<close>

lemma whitespace_lower: "\<forall>c \<in> set whitespace. lower_char c = c \<and> \<not> is_upper c"
  by (simp add: whitespace_def lower_char_def is_upper_def ascii_uppercase_def
      ascii_lowercase_def)

lemma space_lower: "is_space c \<Longrightarrow> lower_char c = c"
  using whitespace_lower by (simp add: is_space_def)

lemma space_not_upper: "is_space c \<Longrightarrow> \<not> is_upper c"
  using whitespace_lower by (simp add: is_space_def)

lemma lower_blank: "\<forall>c \<in> set t. is_space c \<Longrightarrow> lower t = t"
  by (induction t) (simp_all add: lower_simps space_lower)

lemma contains_hd: "contains s (x # xs) \<Longrightarrow> x \<in> set s"
  by (induction s) auto

lemma contains_blank:
  "\<forall>c \<in> set t. is_space c \<Longrightarrow> \<not> is_space x \<Longrightarrow> \<not> contains (lower t) (x # xs)"
  using contains_hd [of t x xs] by (auto simp: lower_blank)

lemma count_sub_absent: "x \<notin> set s \<Longrightarrow> count_sub s (x # xs) = 0"
proof (induction s)
  case Nil
  then show ?case by (simp add: count_sub_Nil)
next
  case (Cons c cs)
  then show ?case by (auto simp: count_sub_Cons)
qed

lemma count_sub_blank:
  "\<forall>c \<in> set t. is_space c \<Longrightarrow> \<not> is_space x \<Longrightarrow> count_sub (lower t) (x # xs) = 0"
  by (rule count_sub_absent) (auto simp: lower_blank)

lemma finditer_Nil:
  "(\<And>t. set t \<subseteq> set s \<Longrightarrow> m t = None) \<Longrightarrow> finditer m s = []"
proof (induction s)
  case Nil
  then show ?case by (subst finditer.simps) simp
next
  case (Cons c cs)
  have "finditer m cs = []"
  proof (rule Cons.IH)
    fix t assume "set t \<subseteq> set cs"
    then have "set t \<subseteq> set (c # cs)" by auto
    then show "m t = None" by (rule Cons.prems)
  qed
  moreover have "m (c # cs) = None" by (rule Cons.prems) simp
  ultimately show ?case by (subst finditer.simps) simp
qed

lemma search_None:
  "(\<And>t. set t \<subseteq> set s \<Longrightarrow> m t = None) \<Longrightarrow> search m s = None"
proof (induction s)
  case Nil
  then show ?case by simp
next
  case (Cons c cs)
  have "search m cs = None"
  proof (rule Cons.IH)
    fix t assume "set t \<subseteq> set cs"
    then have "set t \<subseteq> set (c # cs)" by auto
    then show "m t = None" by (rule Cons.prems)
  qed
  moreover have "m (c # cs) = None" by (rule Cons.prems) simp
  ultimately show ?case by simp
qed

lemma lit_ci_blank:
  assumes "\<forall>c \<in> set t. is_space c" and "\<not> is_space (lower_char x)"
  shows "rests (lit_ci (x # xs)) t = []"
proof (cases t)
  case Nil
  then show ?thesis by simp
next
  case (Cons c cs)
  with assms have "lower_char c \<noteq> lower_char x" by (auto simp: space_lower)
  with Cons show ?thesis by simp
qed

lemma upper_blank: "\<forall>c \<in> set t. is_space c \<Longrightarrow> rests (Cls is_upper) t = []"
  by (cases t) (simp_all add: space_not_upper)

lemma money_match_blank:
  assumes "\<forall>c \<in> set t. is_space c" and "\<not> is_space (lower_char x)"
  shows "money_match (x # xs) t = None"
proof -
  have "rests (money_pre (x # xs)) t = []"
    unfolding money_pre_def seqs.simps
    by (rule rests_Seq_Nil) (rule lit_ci_blank [OF assms])
  then show ?thesis by (simp add: money_match_def re_match_def)
qed

lemma keyword_values_blank:
  assumes "\<forall>c \<in> set t. is_space c" and "\<not> is_space (lower_char x)"
  shows "keyword_values t (x # xs) = []"
proof -
  have "finditer (money_match (x # xs)) t = []"
  proof (rule finditer_Nil)
    fix u assume "set u \<subseteq> set t"
    with assms(1) have "\<forall>c \<in> set u. is_space c" by auto
    then show "money_match (x # xs) u = None" using assms(2) by (rule money_match_blank)
  qed
  then show ?thesis by (simp add: keyword_values_def)
qed

lemmas space_eval = is_space_def whitespace_def lower_char_def ascii_uppercase_def
  ascii_lowercase_def

lemma extract_financial_metrics_blank:
  assumes "\<forall>c \<in> set t. is_space c"
  shows "extract_financial_metrics t = []"
  by (simp add: extract_financial_metrics_def financial_terms_def find_monetary_values_def
      keyword_values_blank [OF assms] space_eval)

lemma alts_blank: "\<forall>a \<in> set as. rests a t = [] \<Longrightarrow> rests (alts as) t = []"
  by (induction as) (simp_all split: list.split)

lemma highlight_pattern_blank:
  assumes "\<forall>c \<in> set t. is_space c" and "p \<in> set positive_patterns"
  shows "re_match0 p t = None"
proof -
  have "\<forall>p \<in> set positive_patterns. rests p t = []"
    unfolding positive_patterns_def
    by (simp del: lit_ci.simps alts.simps rests.simps(3)
        add: rests_Seq_Nil alts_blank lit_ci_blank [OF assms(1)] space_eval)
  with assms(2) have "rests p t = []" by blast
  then show ?thesis by (simp add: re_match0_def)
qed

lemma extract_highlights_blank:
  assumes "\<forall>c \<in> set t. is_space c"
  shows "extract_highlights t = []"
proof -
  have "pattern_highlights t p = []" if "p \<in> set positive_patterns" for p
  proof -
    have "finditer (re_match0 p) t = []"
    proof (rule finditer_Nil)
      fix u assume "set u \<subseteq> set t"
      with assms have "\<forall>c \<in> set u. is_space c" by auto
      then show "re_match0 p u = None" using that by (rule highlight_pattern_blank)
    qed
    then show ?thesis by (simp add: pattern_highlights_def)
  qed
  then show ?thesis by (simp add: extract_highlights_def)
qed

lemma count_terms_blank:
  assumes "\<forall>c \<in> set t. is_space c"
  shows "count_terms (lower t) positive_indicators = 0"
    and "count_terms (lower t) negative_indicators = 0"
    and "count_terms (lower t) stability_positive = 0"
    and "count_terms (lower t) stability_negative = 0"
  by (simp_all add: count_terms_def positive_indicators_def negative_indicators_def
      stability_positive_def stability_negative_def count_sub_blank [OF assms]
      is_space_def whitespace_def)

lemma gt_times_1_2_zero: "\<not> gt_times_1_2 0 0"
  using gt_times_1_2_exact [of 0 0] by simp

lemma generate_recommendation_blank:
  assumes "\<forall>c \<in> set t. is_space c"
  shows "generate_recommendation t =
           ''NEUTRAL - Mixed indicators suggest further analysis needed''"
  by (simp add: generate_recommendation_def Let_def count_terms_blank [OF assms]
      gt_times_1_2_zero)

lemma company_blank:
  assumes "\<forall>c \<in> set t. is_space c"
  shows "search (re_match Eps company_pattern Eps) (take 2000 t) = None"
proof (rule search_None)
  fix u assume "set u \<subseteq> set (take 2000 t)"
  with assms have "\<forall>c \<in> set u. is_space c" by (auto dest: in_set_takeD)
  then have "rests company_pattern u = []"
    unfolding company_pattern_def seqs.simps
    by (intro rests_Seq_Nil upper_blank)
  then show "re_match Eps company_pattern Eps u = None"
    by (simp add: re_match_def)
qed

lemma extract_document_info_blank:
  assumes "\<forall>c \<in> set t. is_space c"
  shows "extract_document_info t =
     [(''document_type'', Str ''Financial Document''),
      (''company_name'', Str ''Not identified''),
      (''reporting_period'', Str ''Not specified'')]"
  by (simp add: extract_document_info_def Let_def company_blank [OF assms]
      contains_blank [OF assms] is_space_def whitespace_def)

lemma risk_section_blank:
  assumes "\<forall>c \<in> set t. is_space c"
  shows "search (re_match0 risk_section_pattern) t = None"
proof (rule search_None)
  fix u assume "set u \<subseteq> set t"
  with assms have "\<forall>c \<in> set u. is_space c" by auto
  then have "rests (lit_ci ''risk factor'') u = []"
    by (rule lit_ci_blank) (simp add: space_eval)
  then have "rests risk_section_pattern u = []"
    unfolding risk_section_pattern_def seqs.simps by (rule rests_Seq_Nil)
  then show "re_match0 risk_section_pattern u = None"
    by (simp add: re_match0_def)
qed

lemma identify_risks_blank:
  assumes "\<forall>c \<in> set t. is_space c"
  shows "identify_risks t = []"
  by (simp add: identify_risks_def Let_def risk_keywords_def risk_section_blank [OF assms]
      contains_blank [OF assms] is_space_def whitespace_def)

lemma assess_financial_stability_blank:
  assumes "\<forall>c \<in> set t. is_space c"
  shows "assess_financial_stability t = ''MIXED - Balanced financial stability indicators''"
  by (simp add: assess_financial_stability_def Let_def count_terms_blank [OF assms])

lemma assess_market_risks_blank:
  assumes "\<forall>c \<in> set t. is_space c"
  shows "assess_market_risks t = []"
  by (simp add: assess_market_risks_def Let_def market_risk_terms_def
      contains_blank [OF assms] is_space_def whitespace_def)

lemma generate_risk_recommendations_blank:
  assumes "\<forall>c \<in> set t. is_space c"
  shows "generate_risk_recommendations t =
     [''Monitor financial metrics regularly'',
      ''Diversify investment portfolio'',
      ''Stay informed about industry trends'',
      ''Review risk tolerance periodically'']"
  by (simp add: generate_risk_recommendations_def Let_def
      contains_blank [OF assms] is_space_def whitespace_def)

lemma blank_no_error_marker:
  assumes "\<forall>c \<in> set t. is_space c"
  shows "\<not> startswith t ''Error:''"
proof (cases t)
  case Nil
  then show ?thesis by simp
next
  case (Cons c cs)
  with assms have "c \<in> set whitespace" by (simp add: is_space_def)
  moreover have "\<forall>c \<in> set whitespace. c \<noteq> CHR ''E''" by (simp add: whitespace_def)
  ultimately have "c \<noteq> CHR ''E''" by blast
  with Cons show ?thesis by simp
qed

text \<open>
  C2, as the code has it. The gate of the two entry points tests for the empty string and
  for the prefix \<^verbatim>\<open>Error:\<close> only. A text that is not empty and holds whitespace only
  passes the gate and is analysed: \<^verbatim>\<open>analyze_investment\<close> returns the four-key record with
  the placeholders, no metric, no highlight and the NEUTRAL recommendation, and
  \<^verbatim>\<open>assess_risks\<close> the five-key record with level LOW, no risk, MIXED stability and the four
  general recommendations. Neither is the record returned for the empty string.
\<close>

theorem whitespace_input_is_analysed:
  assumes "text \<noteq> []" and "\<forall>c \<in> set text. is_space c"
  shows "analyze_investment text =
           [(''document_summary'',
               Dct [(''document_type'', Str ''Financial Document''),
                    (''company_name'', Str ''Not identified''),
                    (''reporting_period'', Str ''Not specified'')]),
            (''financial_metrics'', Dct []),
            (''key_highlights'', Lst []),
            (''investment_recommendation'',
               Str ''NEUTRAL - Mixed indicators suggest further analysis needed'')]
         \<and> assess_risks text =
           [(''overall_risk_level'', Str ''LOW''),
            (''identified_risks'', Lst []),
            (''financial_stability'', Str ''MIXED - Balanced financial stability indicators''),
            (''market_risks'', Lst []),
            (''recommendations'',
               Lst [Str ''Monitor financial metrics regularly'',
                    Str ''Diversify investment portfolio'',
                    Str ''Stay informed about industry trends'',
                    Str ''Review risk tolerance periodically''])]
         \<and> analyze_investment text \<noteq> analyze_investment []
         \<and> assess_risks text \<noteq> assess_risks []"
proof -
  note blank = assms(2)
  have a: "analyze_investment text =
           [(''document_summary'',
               Dct [(''document_type'', Str ''Financial Document''),
                    (''company_name'', Str ''Not identified''),
                    (''reporting_period'', Str ''Not specified'')]),
            (''financial_metrics'', Dct []),
            (''key_highlights'', Lst []),
            (''investment_recommendation'',
               Str ''NEUTRAL - Mixed indicators suggest further analysis needed'')]"
    using assms(1)
    by (simp add: analyze_investment_def blank_no_error_marker [OF blank]
        extract_document_info_blank [OF blank] extract_financial_metrics_blank [OF blank]
        extract_highlights_blank [OF blank] generate_recommendation_blank [OF blank])
  have r: "assess_risks text =
           [(''overall_risk_level'', Str ''LOW''),
            (''identified_risks'', Lst []),
            (''financial_stability'', Str ''MIXED - Balanced financial stability indicators''),
            (''market_risks'', Lst []),
            (''recommendations'',
               Lst [Str ''Monitor financial metrics regularly'',
                    Str ''Diversify investment portfolio'',
                    Str ''Stay informed about industry trends'',
                    Str ''Review risk tolerance periodically''])]"
    using assms(1)
    by (simp add: assess_risks_def blank_no_error_marker [OF blank] Let_def
        identify_risks_blank [OF blank] assess_financial_stability_blank [OF blank]
        assess_market_risks_blank [OF blank] generate_risk_recommendations_blank [OF blank]
        calculate_overall_risk_def dict_get_def)
  show ?thesis
    unfolding a r by (simp add: analyze_investment_def assess_risks_def)
qed

theorem whitespace_input_is_analysed_witness:
  "analyze_investment '' '' \<noteq> [(''error'', Str ''No valid financial data provided for analysis'')]
   \<and> map_of (assess_risks [CHR 0x09, CHR '' '', CHR 0x0A]) ''overall_risk_level'' = Some (Str ''LOW'')"
  using whitespace_input_is_analysed [of "'' ''"]
    whitespace_input_is_analysed [of "[CHR 0x09, CHR '' '', CHR 0x0A]"]
  by (simp add: is_space_def whitespace_def)

text \<open>
  C2, as the claim states it, asks that a text of whitespace only gets the error record of
  the empty string. For a single space both entry points return something else.
\<close>

theorem whitespace_not_error_counterexample:
  "analyze_investment '' '' \<noteq> analyze_investment []
   \<and> assess_risks '' '' \<noteq> assess_risks []"
  by (simp add: analyze_investment_def assess_risks_def Let_def)

end
